theory Spec2Isabelle
  imports Main
begin

section \<open>JavaScript values\<close>

text \<open>
  The extension handles data that comes out of \<^verbatim>\<open>JSON.parse\<close>: the output of the
  external tool and the contents of its own cache and configuration files. The
  TypeScript annotations are erased at run time, so the model works on untyped
  values. \<open>JUndefined\<close> is the value of a missing property; \<^verbatim>\<open>JSON.parse\<close> never
  produces it, objects built by the code can hold it. Numbers are integers: the code
  only tests a number for truthiness, compares an exit code with 0 and prints it.
  An object is its list of properties, looked up from the front; a key of the list is
  a property of the object's own.
\<close>

datatype jsval =
    JUndefined
  | JNull
  | JBool bool
  | JNum int
  | JStr string
  | JArr "jsval list"
  | JObj "(string \<times> jsval) list"

text \<open>Truthiness, as tested by \<^verbatim>\<open>if (v)\<close>, \<^verbatim>\<open>a && b\<close> and \<^verbatim>\<open>a || b\<close>.\<close>

fun truthy :: "jsval \<Rightarrow> bool" where
  "truthy JUndefined = False"
| "truthy JNull = False"
| "truthy (JBool b) = b"
| "truthy (JNum n) = (n \<noteq> 0)"
| "truthy (JStr s) = (s \<noteq> [])"
| "truthy (JArr xs) = True"
| "truthy (JObj kvs) = True"

definition js_or :: "jsval \<Rightarrow> jsval \<Rightarrow> jsval" where
  "js_or a b = (if truthy a then a else b)"

fun isArray :: "jsval \<Rightarrow> bool" where
  "isArray (JArr xs) = True"
| "isArray v = False"

fun is_primitive :: "jsval \<Rightarrow> bool" where
  "is_primitive (JArr xs) = False"
| "is_primitive (JObj kvs) = False"
| "is_primitive v = True"

text \<open>
  Errors are values. \<open>JsError k m\<close> is an exception object of class \<open>k\<close> with
  message \<open>m\<close>; a promise is modelled by its outcome, \<open>Inl\<close> when it rejects
  and \<open>Inr\<close> when it resolves.
\<close>

datatype err_kind = GenericError | SyntaxError | TypeError

datatype js_error = JsError err_kind string

fun kind_name :: "err_kind \<Rightarrow> string" where
  "kind_name GenericError = ''Error''"
| "kind_name SyntaxError = ''SyntaxError''"
| "kind_name TypeError = ''TypeError''"

text \<open>\<^verbatim>\<open>`${error}`\<close>: the class name, then the message when there is one.\<close>

fun error_toString :: "js_error \<Rightarrow> string" where
  "error_toString (JsError k m) = (if m = [] then kind_name k else kind_name k @ '': '' @ m)"

text \<open>
  Property access. \<open>opt_prop v k\<close> is \<^verbatim>\<open>v?.k\<close>; \<open>get_prop v k\<close> is \<^verbatim>\<open>v.k\<close>,
  which throws a TypeError on \<^verbatim>\<open>null\<close> and \<^verbatim>\<open>undefined\<close>. The code reads only
  the properties boards, libraries, installed\_libraries, library, release, name,
  version, fqbn, board, port and baudrate, none of which a primitive or an array has
  of its own.
\<close>

fun opt_prop :: "jsval \<Rightarrow> string \<Rightarrow> jsval" where
  "opt_prop (JObj kvs) k = (case map_of kvs k of None \<Rightarrow> JUndefined | Some v \<Rightarrow> v)"
| "opt_prop v k = JUndefined"

definition get_prop :: "jsval \<Rightarrow> string \<Rightarrow> js_error + jsval" where
  "get_prop v k =
     (if v = JUndefined \<or> v = JNull
      then Inl (JsError TypeError
                 (''Cannot read properties of '' @ (if v = JNull then ''null'' else ''undefined'') @
                  '' (reading '' @ [CHR 0x27] @ k @ [CHR 0x27] @ '')''))
      else Inr (opt_prop v k))"

text \<open>
  \<^verbatim>\<open>for (const x of v)\<close>: an array gives its elements, a string its characters (as
  one-character strings), anything else is not iterable.
\<close>

fun js_iterate :: "jsval \<Rightarrow> js_error + jsval list" where
  "js_iterate (JArr xs) = Inr xs"
| "js_iterate (JStr s) = Inr (map (\<lambda>c. JStr [c]) s)"
| "js_iterate v = Inl (JsError TypeError ''value is not iterable'')"

subsection \<open>Numbers and values as text\<close>

text \<open>Decimal digits; \<open>digit_char\<close> is only applied to numbers below ten.\<close>

definition digit_char :: "nat \<Rightarrow> char" where
  "digit_char d = ''0123456789'' ! d"

function show_nat :: "nat \<Rightarrow> string" where
  "show_nat n = (if n < 10 then [digit_char n] else show_nat (n div 10) @ [digit_char (n mod 10)])"
  by pat_completeness auto
termination
  by (relation "measure (\<lambda>n. n)") auto

declare show_nat.simps [simp del]

definition show_int :: "int \<Rightarrow> string" where
  "show_int i = (if i < 0 then CHR ''-'' # show_nat (nat (- i)) else show_nat (nat i))"

text \<open>
  \<^verbatim>\<open>`${v}`\<close> for a value, which can throw.
  \<^item> A number up to \<^verbatim>\<open>Number.MAX_SAFE_INTEGER\<close> in magnitude prints in decimal. Beyond
    it the digits depend on the rounding of the floating-point number (\<^verbatim>\<open>2**60\<close>
    prints as 1152921504606847000, \<^verbatim>\<open>1e21\<close> as \<^verbatim>\<open>1e+21\<close>): they are those of the
    runtime, given as the parameter \<open>number_text\<close>.
  \<^item> An object with a property \<^verbatim>\<open>toString\<close> of its own cannot be converted: the
    property is data, not a function, and the inherited \<^verbatim>\<open>valueOf\<close> returns the
    object itself, so the conversion throws a TypeError. Any other object prints as
    \<^verbatim>\<open>[object Object]\<close>.
  \<^item> An array joins its elements with commas, \<^verbatim>\<open>null\<close> and \<^verbatim>\<open>undefined\<close> as the
    empty string, converting them from left to right; the first element that cannot
    be converted throws.
\<close>

definition max_safe_integer :: int where
  "max_safe_integer = 9007199254740991"

fun js_toString :: "(int \<Rightarrow> string) \<Rightarrow> jsval \<Rightarrow> js_error + string"
  and js_join :: "(int \<Rightarrow> string) \<Rightarrow> jsval list \<Rightarrow> js_error + string" where
  "js_toString number_text JUndefined = Inr ''undefined''"
| "js_toString number_text JNull = Inr ''null''"
| "js_toString number_text (JBool b) = Inr (if b then ''true'' else ''false'')"
| "js_toString number_text (JNum n) =
     Inr (if - max_safe_integer \<le> n \<and> n \<le> max_safe_integer then show_int n
          else number_text n)"
| "js_toString number_text (JStr s) = Inr s"
| "js_toString number_text (JArr xs) = js_join number_text xs"
| "js_toString number_text (JObj kvs) =
     (if map_of kvs ''toString'' = None then Inr ''[object Object]''
      else Inl (JsError TypeError ''Cannot convert object to primitive value''))"
| "js_join number_text [] = Inr []"
| "js_join number_text [x] =
     (if x = JUndefined \<or> x = JNull then Inr [] else js_toString number_text x)"
| "js_join number_text (x # y # ys) =
     (case (if x = JUndefined \<or> x = JNull then Inr [] else js_toString number_text x) of
        Inl e \<Rightarrow> Inl e
      | Inr s \<Rightarrow>
          (case js_join number_text (y # ys) of
             Inl e \<Rightarrow> Inl e
           | Inr t \<Rightarrow> Inr (s @ '','' @ t)))"

text \<open>
  \<^verbatim>\<open>JSON.parse(JSON.stringify(v))\<close> for an object or array \<open>v\<close>: what a file written
  by the extension holds when it is read back. A property whose value is
  \<^verbatim>\<open>undefined\<close> is dropped, an \<^verbatim>\<open>undefined\<close> array element becomes \<^verbatim>\<open>null\<close>.
\<close>

fun stringify_parse :: "jsval \<Rightarrow> jsval"
  and stringify_elems :: "jsval list \<Rightarrow> jsval list"
  and stringify_props :: "(string \<times> jsval) list \<Rightarrow> (string \<times> jsval) list" where
  "stringify_parse (JArr xs) = JArr (stringify_elems xs)"
| "stringify_parse (JObj kvs) = JObj (stringify_props kvs)"
| "stringify_parse JUndefined = JUndefined"
| "stringify_parse JNull = JNull"
| "stringify_parse (JBool b) = JBool b"
| "stringify_parse (JNum n) = JNum n"
| "stringify_parse (JStr s) = JStr s"
| "stringify_elems [] = []"
| "stringify_elems (x # xs) =
     (if x = JUndefined then JNull else stringify_parse x) # stringify_elems xs"
| "stringify_props [] = []"
| "stringify_props ((k, v) # kvs) =
     (if v = JUndefined then stringify_props kvs else (k, stringify_parse v) # stringify_props kvs)"

section \<open>The environment\<close>

text \<open>
  A file is its modification time (milliseconds, as \<^verbatim>\<open>stats.mtime.getTime()\<close>
  gives it) and what \<^verbatim>\<open>JSON.parse\<close> makes of its text: \<open>None\<close> when reading or
  parsing throws.
\<close>

record stored_file =
  mtime :: int
  content :: "jsval option"

record arduino_config =
  board :: jsval
  port :: jsval
  baudrate :: jsval

datatype notification = Information string | ErrorMessage string

text \<open>
  The state the managers work on: the clock (\<^verbatim>\<open>Date.now()\<close>, constant during one
  command), the two cache files and the project's configuration file (\<open>None\<close> when
  the file does not exist), whether the file system accepts writes and deletions, the
  configuration held in memory, two settings of the editor, and what the user gets to
  see: the notifications, the output channel and the command lines handed to
  \<^verbatim>\<open>spawn\<close>, in order.
\<close>

record world =
  date_now :: int
  boardsCacheFile :: "stored_file option"
  cacheFile :: "stored_file option"
  configFile :: "stored_file option"
  configFilePath :: string
  fs_writable :: bool
  config :: arduino_config
  arduinoCliPath :: string
  currentDirectory :: string
  notifications :: "notification list"
  outputChannel :: string
  spawned :: "string list"

definition showInformationMessage :: "string \<Rightarrow> world \<Rightarrow> world" where
  "showInformationMessage m w = w\<lparr>notifications := notifications w @ [Information m]\<rparr>"

definition showErrorMessage :: "string \<Rightarrow> world \<Rightarrow> world" where
  "showErrorMessage m w = w\<lparr>notifications := notifications w @ [ErrorMessage m]\<rparr>"

definition fs_error :: js_error where
  "fs_error = JsError GenericError ''EACCES: permission denied''"

definition parse_error :: js_error where
  "parse_error = JsError SyntaxError ''Unexpected token in JSON''"

text \<open>
  The external tool run through \<^verbatim>\<open>child_process.exec\<close>: for a command line, either
  the callback's error, or standard output as \<^verbatim>\<open>JSON.parse\<close> reads it (\<open>None\<close>
  when it throws).
\<close>

datatype exec_result = ExecFailed js_error | ExecStdout "jsval option"

type_synonym exec_fn = "string \<Rightarrow> exec_result"

section \<open>ArduinoManager: the boards cache\<close>

definition cacheExpiration :: int where
  "cacheExpiration = 7 * 24 * 60 * 60 * 1000"

text \<open>
  \<^verbatim>\<open>cached && cached.f && Array.isArray(cached.f)\<close>, and then \<^verbatim>\<open>cached.f\<close>: the
  elements of the array, or \<open>None\<close> when the test fails.
\<close>

definition cached_list :: "jsval \<Rightarrow> string \<Rightarrow> jsval list option" where
  "cached_list cached f =
     (if truthy cached \<and> truthy (opt_prop cached f) \<and> isArray (opt_prop cached f)
      then (case opt_prop cached f of JArr xs \<Rightarrow> Some xs | _ \<Rightarrow> None)
      else None)"

definition loadBoardsFromCache :: "world \<Rightarrow> jsval list option \<times> world" where
  "loadBoardsFromCache w =
     (case boardsCacheFile w of
        None \<Rightarrow> (None, w)
      | Some stats \<Rightarrow>
          if date_now w - mtime stats > cacheExpiration then (None, w)
          else (case content stats of
                  None \<Rightarrow> (None, w)
                | Some cached \<Rightarrow>
                    (case cached_list cached ''boards'' of
                       Some boards \<Rightarrow>
                         (Some boards,
                          showInformationMessage
                            (''Loading '' @ show_nat (length boards) @ '' boards from cache...'') w)
                     | None \<Rightarrow> (None, w))))"

text \<open>
  The callback of \<^verbatim>\<open>boards.filter\<close>, \<^verbatim>\<open>board.fqbn && board.name\<close>, throws on a
  \<^verbatim>\<open>null\<close> element; so the filter is a loop that may fail.
\<close>

fun boards_filter :: "jsval list \<Rightarrow> js_error + jsval list" where
  "boards_filter [] = Inr []"
| "boards_filter (b # rest) =
     (case get_prop b ''fqbn'' of
        Inl e \<Rightarrow> Inl e
      | Inr fqbn \<Rightarrow>
          (case (if truthy fqbn then get_prop b ''name'' else Inr fqbn) of
             Inl e \<Rightarrow> Inl e
           | Inr keep \<Rightarrow>
               (case boards_filter rest of
                  Inl e \<Rightarrow> Inl e
                | Inr kept \<Rightarrow> Inr (if truthy keep then b # kept else kept))))"

text \<open>The callback of \<^verbatim>\<open>map\<close>: the entry made of a board that passed the filter.\<close>

definition board_item :: "jsval \<Rightarrow> jsval" where
  "board_item b =
     JObj [(''label'', opt_prop b ''name''), (''fqbn'', opt_prop b ''fqbn''),
           (''name'', opt_prop b ''name'')]"

definition getAvailableBoardsStreaming :: "exec_fn \<Rightarrow> string \<Rightarrow> js_error + jsval list" where
  "getAvailableBoardsStreaming exec arduinoCli =
     (case exec (arduinoCli @ '' board listall --format json'') of
        ExecFailed e \<Rightarrow> Inl e
      | ExecStdout None \<Rightarrow> Inl parse_error
      | ExecStdout (Some data) \<Rightarrow>
          (case get_prop data ''boards'' of
             Inl e \<Rightarrow> Inl e
           | Inr bs \<Rightarrow>
               (case js_or bs (JArr []) of
                  JArr boards \<Rightarrow>
                    (case boards_filter boards of
                       Inl e \<Rightarrow> Inl e
                     | Inr kept \<Rightarrow> Inr (map board_item kept))
                | _ \<Rightarrow> Inl (JsError TypeError ''boards.filter is not a function''))))"

text \<open>
  Writing the cache: creating the directory and writing the file are one step, which
  the file system accepts or refuses; a refusal is caught and logged to the console.
\<close>

definition saveBoardsToCache :: "jsval list \<Rightarrow> world \<Rightarrow> world" where
  "saveBoardsToCache boards w =
     (if fs_writable w
      then w\<lparr>boardsCacheFile :=
               Some \<lparr>mtime = date_now w,
                     content = Some (stringify_parse
                       (JObj [(''boards'', JArr boards), (''timestamp'', JNum (date_now w))]))\<rparr>\<rparr>
      else w)"

text \<open>An entry of the static list; label and name are the same text.\<close>

definition common_board :: "string \<Rightarrow> string \<Rightarrow> jsval" where
  "common_board l f = JObj [(''label'', JStr l), (''fqbn'', JStr f), (''name'', JStr l)]"

definition getCommonBoards :: "jsval list" where
  "getCommonBoards =
     [common_board ''Arduino Uno'' ''arduino:avr:uno'',
      common_board ''Arduino Nano'' ''arduino:avr:nano'',
      common_board ''Arduino Mega'' ''arduino:avr:mega'',
      common_board ''Arduino Leonardo'' ''arduino:avr:leonardo'',
      common_board ''Arduino Micro'' ''arduino:avr:micro'',
      common_board ''Arduino Pro Mini'' ''arduino:avr:pro'',
      common_board ''ESP32 Dev Module'' ''esp32:esp32:esp32'',
      common_board ''ESP32-S3 Dev Module'' ''esp32:esp32:esp32s3'',
      common_board ''ESP8266 NodeMCU'' ''esp8266:esp8266:nodemcuv2'',
      common_board ''ESP8266 Generic'' ''esp8266:esp8266:generic'',
      common_board ''Teensy 3.2'' ''teensy:avr:teensy32'',
      common_board ''Teensy 4.0'' ''teensy:avr:teensy40'']"

definition fetchBoards :: "exec_fn \<Rightarrow> world \<Rightarrow> (js_error + jsval list) \<times> world" where
  "fetchBoards exec w =
     (let w1 = showInformationMessage ''Fetching boards from arduino-cli...'' w in
      case getAvailableBoardsStreaming exec (arduinoCliPath w1) of
        Inr boards \<Rightarrow> (Inr boards, saveBoardsToCache boards w1)
      | Inl e \<Rightarrow>
          (let w2 = showErrorMessage (''Error fetching boards: '' @ error_toString e) w1 in
           case loadBoardsFromCache w2 of
             (Some cached, w3) \<Rightarrow>
               (Inr cached, showInformationMessage ''Using cached board data...'' w3)
           | (None, w3) \<Rightarrow> (Inr getCommonBoards, w3)))"

definition getAvailableBoards :: "exec_fn \<Rightarrow> world \<Rightarrow> (js_error + jsval list) \<times> world" where
  "getAvailableBoards exec w =
     (case loadBoardsFromCache w of
        (Some cachedBoards, w1) \<Rightarrow> (Inr cachedBoards, w1)
      | (None, w1) \<Rightarrow> fetchBoards exec w1)"

definition refreshBoardsCache :: "exec_fn \<Rightarrow> world \<Rightarrow> (js_error + unit) \<times> world" where
  "refreshBoardsCache exec w =
     (let w1 = showInformationMessage ''Refreshing boards cache...'' w in
      if boardsCacheFile w1 \<noteq> None \<and> \<not> fs_writable w1
      then (Inr (), showErrorMessage
              (''Error refreshing boards cache: '' @ error_toString fs_error) w1)
      else
        (case fetchBoards exec (w1\<lparr>boardsCacheFile := None\<rparr>) of
           (Inl e, w2) \<Rightarrow>
             (Inr (), showErrorMessage
                (''Error refreshing boards cache: '' @ error_toString e) w2)
         | (Inr boards, w2) \<Rightarrow>
             (Inr (), showInformationMessage ''Boards cache refreshed successfully!'' w2)))"

section \<open>LibraryManager: the libraries cache\<close>

definition loadFromCache :: "world \<Rightarrow> jsval list option \<times> world" where
  "loadFromCache w =
     (case cacheFile w of
        None \<Rightarrow> (None, w)
      | Some stats \<Rightarrow>
          if date_now w - mtime stats > cacheExpiration then (None, w)
          else (case content stats of
                  None \<Rightarrow> (None, w)
                | Some cached \<Rightarrow>
                    (case cached_list cached ''libraries'' of
                       Some libraries \<Rightarrow>
                         (Some libraries,
                          showInformationMessage
                            (''Loading '' @ show_nat (length libraries) @ '' libraries from cache...'') w)
                     | None \<Rightarrow> (None, w))))"

text \<open>
  A \<^verbatim>\<open>Map\<close> compares keys by identity: a primitive key is found again by an equal
  value, an object or array key only by the very same object. The keys stored and the
  keys looked up come out of different calls of \<^verbatim>\<open>JSON.parse\<close>, so an object or
  array key is never found, and storing one changes no lookup.
\<close>

type_synonym js_map = "jsval \<rightharpoonup> jsval"

definition map_set :: "js_map \<Rightarrow> jsval \<Rightarrow> jsval \<Rightarrow> js_map" where
  "map_set m k v = (if is_primitive k then m(k \<mapsto> v) else m)"

definition map_has :: "js_map \<Rightarrow> jsval \<Rightarrow> bool" where
  "map_has m k = (is_primitive k \<and> m k \<noteq> None)"

definition map_get :: "js_map \<Rightarrow> jsval \<Rightarrow> jsval" where
  "map_get m k = (if is_primitive k then (case m k of None \<Rightarrow> JUndefined | Some v \<Rightarrow> v) else JUndefined)"

text \<open>\<^verbatim>\<open>libraries.map(lib => ({name: lib.name, version: lib.version}))\<close>\<close>

fun available_map :: "jsval list \<Rightarrow> js_error + jsval list" where
  "available_map [] = Inr []"
| "available_map (lib # rest) =
     (case get_prop lib ''name'' of
        Inl e \<Rightarrow> Inl e
      | Inr name \<Rightarrow>
          (case get_prop lib ''version'' of
             Inl e \<Rightarrow> Inl e
           | Inr version \<Rightarrow>
               (case available_map rest of
                  Inl e \<Rightarrow> Inl e
                | Inr items \<Rightarrow> Inr (JObj [(''name'', name), (''version'', version)] # items))))"

definition getAvailableLibrariesStreaming :: "exec_fn \<Rightarrow> string \<Rightarrow> js_error + jsval list" where
  "getAvailableLibrariesStreaming exec arduinoCli =
     (case exec (arduinoCli @ '' lib search --format json'') of
        ExecFailed e \<Rightarrow> Inl e
      | ExecStdout None \<Rightarrow> Inl parse_error
      | ExecStdout (Some data) \<Rightarrow>
          (case get_prop data ''libraries'' of
             Inl e \<Rightarrow> Inl e
           | Inr ls \<Rightarrow>
               (case js_or ls (JArr []) of
                  JArr libraries \<Rightarrow> available_map libraries
                | _ \<Rightarrow> Inl (JsError TypeError ''libraries.map is not a function''))))"

text \<open>The loop over \<^verbatim>\<open>data.installed_libraries\<close>, filling the map.\<close>

fun installed_loop :: "jsval list \<Rightarrow> js_map \<Rightarrow> js_error + js_map" where
  "installed_loop [] installed = Inr installed"
| "installed_loop (entry # rest) installed =
     (case get_prop entry ''library'' of
        Inl e \<Rightarrow> Inl e
      | Inr library \<Rightarrow>
          if truthy library \<and> truthy (opt_prop library ''name'')
          then installed_loop rest
                 (map_set installed (opt_prop library ''name'') (opt_prop library ''version''))
          else installed_loop rest installed)"

definition getInstalledLibraries :: "exec_fn \<Rightarrow> string \<Rightarrow> js_error + js_map" where
  "getInstalledLibraries exec arduinoCli =
     (case exec (arduinoCli @ '' lib list --format json'') of
        ExecFailed e \<Rightarrow> Inl e
      | ExecStdout None \<Rightarrow> Inl parse_error
      | ExecStdout (Some data) \<Rightarrow>
          (case get_prop data ''installed_libraries'' of
             Inl e \<Rightarrow> Inl e
           | Inr ls \<Rightarrow>
               if truthy ls
               then (case js_iterate ls of
                       Inl e \<Rightarrow> Inl e
                     | Inr entries \<Rightarrow> installed_loop entries Map.empty)
               else Inr Map.empty))"

text \<open>The loop over \<^verbatim>\<open>data.libraries\<close> of the outdated query.\<close>

fun outdated_loop :: "jsval list \<Rightarrow> js_map \<Rightarrow> js_error + js_map" where
  "outdated_loop [] outdated = Inr outdated"
| "outdated_loop (libEntry # rest) outdated =
     (case get_prop libEntry ''library'' of
        Inl e \<Rightarrow> Inl e
      | Inr libInfo \<Rightarrow>
          (let libName = opt_prop libInfo ''name'';
               latestVersion = opt_prop (opt_prop libEntry ''release'') ''version''
           in if truthy libName \<and> truthy latestVersion
              then outdated_loop rest (map_set outdated libName latestVersion)
              else outdated_loop rest outdated))"

text \<open>
  The body of the \<^verbatim>\<open>try\<close> in the callback of the outdated query; the function
  itself resolves to an empty map wherever this fails.
\<close>

definition outdated_of :: "jsval \<Rightarrow> js_error + js_map" where
  "outdated_of data =
     (case get_prop data ''libraries'' of
        Inl e \<Rightarrow> Inl e
      | Inr ls \<Rightarrow>
          if truthy ls
          then (case js_iterate ls of
                  Inl e \<Rightarrow> Inl e
                | Inr entries \<Rightarrow> outdated_loop entries Map.empty)
          else Inr Map.empty)"

definition getOutdatedLibraries :: "exec_fn \<Rightarrow> string \<Rightarrow> js_error + js_map" where
  "getOutdatedLibraries exec arduinoCli =
     (case exec (arduinoCli @ '' lib outdated --format json'') of
        ExecFailed e \<Rightarrow> Inr Map.empty
      | ExecStdout None \<Rightarrow> Inr Map.empty
      | ExecStdout (Some data) \<Rightarrow>
          (case outdated_of data of
             Inl e \<Rightarrow> Inr Map.empty
           | Inr outdated \<Rightarrow> Inr outdated))"

definition saveToCache :: "jsval list \<Rightarrow> world \<Rightarrow> world" where
  "saveToCache libraries w =
     (if fs_writable w
      then w\<lparr>cacheFile :=
               Some \<lparr>mtime = date_now w,
                     content = Some (stringify_parse
                       (JObj [(''libraries'', JArr libraries), (''timestamp'', JNum (date_now w))]))\<rparr>\<rparr>
      else w)"

text \<open>One entry of the joined list, built from an element of the search result.\<close>

definition library_entry :: "js_map \<Rightarrow> js_map \<Rightarrow> jsval \<Rightarrow> jsval" where
  "library_entry installedLibs outdatedLibs lib =
     JObj [(''name'', opt_prop lib ''name''),
           (''version'', opt_prop lib ''version''),
           (''installed'', JBool (map_has installedLibs (opt_prop lib ''name''))),
           (''hasUpdate'', JBool (map_has outdatedLibs (opt_prop lib ''name''))),
           (''latestVersion'', map_get outdatedLibs (opt_prop lib ''name''))]"

text \<open>
  The awaited part of the \<^verbatim>\<open>try\<close> block of \<^verbatim>\<open>fetchLibraries\<close>: the installed and
  the outdated query together, then the search, then the join.
\<close>

definition fetch_join :: "exec_fn \<Rightarrow> string \<Rightarrow> js_error + jsval list" where
  "fetch_join exec arduinoCli =
     (case getInstalledLibraries exec arduinoCli of
        Inl e \<Rightarrow> Inl e
      | Inr installedLibs \<Rightarrow>
          (case getOutdatedLibraries exec arduinoCli of
             Inl e \<Rightarrow> Inl e
           | Inr outdatedLibs \<Rightarrow>
               (case getAvailableLibrariesStreaming exec arduinoCli of
                  Inl e \<Rightarrow> Inl e
                | Inr availableLibs \<Rightarrow>
                    Inr (map (library_entry installedLibs outdatedLibs) availableLibs))))"

definition fetchLibraries :: "exec_fn \<Rightarrow> world \<Rightarrow> (js_error + jsval list) \<times> world" where
  "fetchLibraries exec w =
     (let w1 = showInformationMessage ''Fetching libraries from arduino-cli...'' w in
      case fetch_join exec (arduinoCliPath w1) of
        Inr libraries \<Rightarrow> (Inr libraries, saveToCache libraries w1)
      | Inl e \<Rightarrow>
          (let w2 = showErrorMessage (''Error fetching libraries: '' @ error_toString e) w1 in
           case loadFromCache w2 of
             (Some cached, w3) \<Rightarrow>
               (Inr cached, showInformationMessage ''Using cached library data...'' w3)
           | (None, w3) \<Rightarrow> (Inr [], w3)))"

definition getLibraries :: "exec_fn \<Rightarrow> world \<Rightarrow> (js_error + jsval list) \<times> world" where
  "getLibraries exec w =
     (case loadFromCache w of
        (Some cachedLibraries, w1) \<Rightarrow> (Inr cachedLibraries, w1)
      | (None, w1) \<Rightarrow> fetchLibraries exec w1)"

definition refreshCache :: "exec_fn \<Rightarrow> world \<Rightarrow> (js_error + unit) \<times> world" where
  "refreshCache exec w =
     (let w1 = showInformationMessage ''Refreshing library cache...'' w in
      if cacheFile w1 \<noteq> None \<and> \<not> fs_writable w1
      then (Inr (), showErrorMessage
              (''Error refreshing cache: '' @ error_toString fs_error) w1)
      else
        (case fetchLibraries exec (w1\<lparr>cacheFile := None\<rparr>) of
           (Inl e, w2) \<Rightarrow>
             (Inr (), showErrorMessage (''Error refreshing cache: '' @ error_toString e) w2)
         | (Inr libraries, w2) \<Rightarrow>
             (Inr (), showInformationMessage ''Library cache refreshed successfully!'' w2)))"

section \<open>ConfigManager: the project's configuration file\<close>

text \<open>
  The configuration as the object that is written to the file. A refused write is
  caught and shown as an error.
\<close>

definition config_json :: "arduino_config \<Rightarrow> jsval" where
  "config_json c = JObj [(''board'', board c), (''port'', port c), (''baudrate'', baudrate c)]"

definition saveConfig :: "world \<Rightarrow> world" where
  "saveConfig w =
     (if fs_writable w
      then w\<lparr>configFile :=
               Some \<lparr>mtime = date_now w, content = Some (stringify_parse (config_json (config w)))\<rparr>\<rparr>
      else showErrorMessage (''Error saving config: '' @ error_toString fs_error) w)"

definition createDefaultConfig :: "world \<Rightarrow> world" where
  "createDefaultConfig w =
     saveConfig (showInformationMessage ''Config file not found. Creating with default settings.'' w)"

text \<open>The \<^verbatim>\<open>catch\<close> block of \<^verbatim>\<open>loadConfig\<close>.\<close>

definition loadConfig_failed :: "js_error \<Rightarrow> world \<Rightarrow> world" where
  "loadConfig_failed e w =
     createDefaultConfig (showErrorMessage (''Error loading config: '' @ error_toString e) w)"

text \<open>
  The three assignments run one after the other, each reading a property of the
  loaded value; an exception at any of them goes to the \<^verbatim>\<open>catch\<close> with the
  assignments before it done.
\<close>

definition loadConfig :: "world \<Rightarrow> world" where
  "loadConfig w =
     (case configFile w of
        None \<Rightarrow> createDefaultConfig w
      | Some f \<Rightarrow>
          (case content f of
             None \<Rightarrow> loadConfig_failed parse_error w
           | Some loadedConfig \<Rightarrow>
               (case get_prop loadedConfig ''board'' of
                  Inl e \<Rightarrow> loadConfig_failed e w
                | Inr b \<Rightarrow>
                    (let w1 = w\<lparr>config := (config w)\<lparr>board := js_or b (board (config w))\<rparr>\<rparr> in
                     case get_prop loadedConfig ''port'' of
                       Inl e \<Rightarrow> loadConfig_failed e w1
                     | Inr p \<Rightarrow>
                         (let w2 = w1\<lparr>config := (config w1)\<lparr>port := js_or p (port (config w1))\<rparr>\<rparr> in
                          case get_prop loadedConfig ''baudrate'' of
                            Inl e \<Rightarrow> loadConfig_failed e w2
                          | Inr r \<Rightarrow>
                              showInformationMessage (''Config loaded from: '' @ configFilePath w2)
                                (w2\<lparr>config :=
                                      (config w2)\<lparr>baudrate := js_or r (baudrate (config w2))\<rparr>\<rparr>))))))"

section \<open>ArduinoManager: running the tool\<close>

text \<open>
  A child process started by \<^verbatim>\<open>spawn\<close>: the chunks it writes to standard output and
  standard error, in order, and the event that settles the promise, which is the first
  of \<^verbatim>\<open>close\<close> (with the exit code, \<^verbatim>\<open>null\<close> when a signal ended the process) and
  \<^verbatim>\<open>error\<close>.
\<close>

datatype child_end = OnClose "int option" | OnError js_error

record child_run =
  chunks :: "string list"
  ending :: child_end

type_synonym spawn_fn = "string \<Rightarrow> string \<Rightarrow> child_run"

text \<open>
  \<open>runCommand\<close> records the command line it starts, appends what the child writes to
  the output channel, and settles by the child's ending: it resolves on exit code 0
  only.
\<close>

definition appendLine :: "string \<Rightarrow> world \<Rightarrow> world" where
  "appendLine s w = w\<lparr>outputChannel := outputChannel w @ s @ [CHR 0x0A]\<rparr>"

definition runCommand :: "spawn_fn \<Rightarrow> string \<Rightarrow> string \<Rightarrow> world \<Rightarrow> (js_error + unit) \<times> world" where
  "runCommand spawn command cwd w =
     (let child = spawn command cwd;
          w1 = w\<lparr>spawned := spawned w @ [command],
                 outputChannel := outputChannel w @ concat (chunks child)\<rparr>
      in case ending child of
           OnClose code \<Rightarrow>
             if code = Some 0 then (Inr (), w1)
             else (Inl (JsError GenericError
                      (''Command failed with exit code '' @
                         (case code of None \<Rightarrow> ''null'' | Some c \<Rightarrow> show_int c))), w1)
         | OnError e \<Rightarrow> (Inl e, w1))"

text \<open>
  The two command lines of \<^verbatim>\<open>upload\<close>, as texts of the tool's path, the board, the
  port and the directory.
\<close>

definition compile_line :: "string \<Rightarrow> string \<Rightarrow> string \<Rightarrow> string" where
  "compile_line arduinoCli b currentDir =
     arduinoCli @ '' compile --fqbn '' @ b @ '' '' @ [CHR 0x22] @ currentDir @ [CHR 0x22]"

definition upload_line :: "string \<Rightarrow> string \<Rightarrow> string \<Rightarrow> string \<Rightarrow> string" where
  "upload_line arduinoCli p b currentDir =
     arduinoCli @ '' upload -p '' @ p @ '' --fqbn '' @ b @ '' '' @
     [CHR 0x22] @ currentDir @ [CHR 0x22]"

text \<open>
  The template literals that build them convert the board and the port of the
  configuration to text, from left to right, and throw when a conversion throws.
\<close>

definition compile_command :: "(int \<Rightarrow> string) \<Rightarrow> world \<Rightarrow> js_error + string" where
  "compile_command number_text w =
     (case js_toString number_text (board (config w)) of
        Inl e \<Rightarrow> Inl e
      | Inr b \<Rightarrow> Inr (compile_line (arduinoCliPath w) b (currentDirectory w)))"

definition upload_command :: "(int \<Rightarrow> string) \<Rightarrow> world \<Rightarrow> js_error + string" where
  "upload_command number_text w =
     (case js_toString number_text (port (config w)) of
        Inl e \<Rightarrow> Inl e
      | Inr p \<Rightarrow>
          (case js_toString number_text (board (config w)) of
             Inl e \<Rightarrow> Inl e
           | Inr b \<Rightarrow> Inr (upload_line (arduinoCliPath w) p b (currentDirectory w))))"

text \<open>The \<^verbatim>\<open>catch\<close> block of \<^verbatim>\<open>upload\<close>.\<close>

definition upload_failed :: "js_error \<Rightarrow> world \<Rightarrow> world" where
  "upload_failed e w =
     showErrorMessage (''Upload failed: '' @ error_toString e)
       (appendLine (''Error: '' @ error_toString e) w)"

text \<open>
  Each command line is built inside the \<^verbatim>\<open>try\<close>, after the line announcing its step
  has been written and before its command is started: a conversion that throws goes to
  the \<^verbatim>\<open>catch\<close> with no further command started.
\<close>

definition upload :: "(int \<Rightarrow> string) \<Rightarrow> spawn_fn \<Rightarrow> world \<Rightarrow> (js_error + unit) \<times> world" where
  "upload number_text spawn w =
     (if currentDirectory w = []
      then (Inr (), showErrorMessage ''No workspace folder found. Please open a folder first.'' w)
      else
        (let w1 = appendLine ''--- Compiling Arduino sketch ---'' (w\<lparr>outputChannel := []\<rparr>) in
         case compile_command number_text w of
           Inl e \<Rightarrow> (Inr (), upload_failed e w1)
         | Inr compile \<Rightarrow>
             (case runCommand spawn compile (currentDirectory w) w1 of
                (Inl e, w2) \<Rightarrow> (Inr (), upload_failed e w2)
              | (Inr u, w2) \<Rightarrow>
                  (let w3 = appendLine ''--- Uploading to Arduino ---'' w2 in
                   case upload_command number_text w of
                     Inl e \<Rightarrow> (Inr (), upload_failed e w3)
                   | Inr upl \<Rightarrow>
                       (case runCommand spawn upl (currentDirectory w) w3 of
                          (Inl e, w4) \<Rightarrow> (Inr (), upload_failed e w4)
                        | (Inr u', w4) \<Rightarrow>
                            (Inr (),
                             showInformationMessage ''Arduino upload completed successfully!''
                               (appendLine ''--- Upload Complete ---'' w4)))))))"

section \<open>Example states\<close>

text \<open>
  A workspace with no cache and no configuration file yet, a tool that cannot be run,
  and cache files written at a given time.
\<close>

definition world0 :: world where
  "world0 =
     \<lparr>date_now = 1700000000000, boardsCacheFile = None, cacheFile = None, configFile = None,
      configFilePath = ''/home/user/sketch/.arduino_config.json'', fs_writable = True,
      config = \<lparr>board = JStr ''arduino:avr:uno'', port = JStr ''/dev/ttyACM0'',
                 baudrate = JNum 115200\<rparr>,
      arduinoCliPath = ''arduino-cli'', currentDirectory = ''/home/user/sketch'',
      notifications = [], outputChannel = [], spawned = []\<rparr>"

definition exec_unavailable :: exec_fn where
  "exec_unavailable cmd = ExecFailed (JsError GenericError ''Command failed'')"

definition boards_file :: "int \<Rightarrow> stored_file" where
  "boards_file t =
     \<lparr>mtime = t,
      content = Some (JObj [(''boards'', JArr [common_board ''My Board'' ''x:y:z'']),
                            (''timestamp'', JNum t)])\<rparr>"

definition libs_file :: "int \<Rightarrow> stored_file" where
  "libs_file t =
     \<lparr>mtime = t,
      content = Some (JObj [(''libraries'', JArr [JObj [(''name'', JStr ''Servo''),
                              (''installed'', JBool True), (''hasUpdate'', JBool False)]]),
                            (''timestamp'', JNum t)])\<rparr>"

text \<open>Both cache files one millisecond older than seven days, and exactly seven days old.\<close>

definition world_expired :: world where
  "world_expired =
     world0\<lparr>boardsCacheFile := Some (boards_file (1700000000000 - 604800001)),
            cacheFile := Some (libs_file (1700000000000 - 604800001))\<rparr>"

definition world_week_old :: world where
  "world_week_old =
     world0\<lparr>boardsCacheFile := Some (boards_file (1700000000000 - 604800000)),
            cacheFile := Some (libs_file (1700000000000 - 604800000))\<rparr>"

text \<open>
  A cache file is corrupt for a field when its text does not parse, or parses to a value
  that fails the structure test of the loaders (no such field, or not an array).
\<close>

definition corrupt :: "stored_file \<Rightarrow> string \<Rightarrow> bool" where
  "corrupt f field = (case content f of None \<Rightarrow> True | Some c \<Rightarrow> cached_list c field = None)"

definition corrupt_file :: stored_file where
  "corrupt_file = \<lparr>mtime = 1700000000000 - 1000, content = None\<rparr>"

definition wrong_shape_file :: stored_file where
  "wrong_shape_file =
     \<lparr>mtime = 1700000000000 - 1000,
      content = Some (JObj [(''boards'', JStr ''none''), (''timestamp'', JNum 5)])\<rparr>"

definition world_corrupt :: world where
  "world_corrupt =
     world0\<lparr>boardsCacheFile := Some wrong_shape_file, cacheFile := Some corrupt_file\<rparr>"

text \<open>A tool that lists two boards, one of them without an FQBN, and knows no libraries.\<close>

definition exec_boards :: exec_fn where
  "exec_boards cmd =
     (if cmd = ''arduino-cli board listall --format json''
      then ExecStdout (Some (JObj [(''boards'',
             JArr [JObj [(''name'', JStr ''Arduino Due''), (''fqbn'', JStr ''arduino:sam:due'')],
                   JObj [(''name'', JStr ''No Fqbn'')]])]))
      else ExecFailed (JsError GenericError ''unknown command''))"

text \<open>A child process that writes one line and exits with a given code.\<close>

definition spawn_exit :: "int \<Rightarrow> spawn_fn" where
  "spawn_exit c command cwd = \<lparr>chunks = [''Sketch uses 924 bytes''], ending = OnClose (Some c)\<rparr>"

text \<open>The compile command fails, any other command succeeds.\<close>

definition spawn_compile_fails :: spawn_fn where
  "spawn_compile_fails command cwd =
     (if command = compile_line ''arduino-cli'' ''arduino:avr:uno'' ''/home/user/sketch''
      then \<lparr>chunks = [''error: expected ; before } token''], ending = OnClose (Some 1)\<rparr>
      else \<lparr>chunks = [], ending = OnClose (Some 0)\<rparr>)"

text \<open>A configuration file that names a board, an empty port and a baud rate of 0.\<close>

definition config_file :: stored_file where
  "config_file = \<lparr>mtime = 1700000000000 - 5000,
     content = Some (JObj [(''board'', JStr ''esp32:esp32:esp32''), (''port'', JStr []),
                           (''baudrate'', JNum 0)])\<rparr>"

text \<open>
  A tool that finds two libraries, has one of them installed and reports a newer release
  of it; and the same tool with a failing outdated query.
\<close>

definition exec_libs :: exec_fn where
  "exec_libs cmd =
     (if cmd = ''arduino-cli lib search --format json''
      then ExecStdout (Some (JObj [(''libraries'',
             JArr [JObj [(''name'', JStr ''Servo''), (''version'', JStr ''1.2.0'')],
                   JObj [(''name'', JStr ''WiFi'')]])]))
      else if cmd = ''arduino-cli lib list --format json''
      then ExecStdout (Some (JObj [(''installed_libraries'',
             JArr [JObj [(''library'', JObj [(''name'', JStr ''Servo''), (''version'', JStr ''1.1.0'')])]])]))
      else if cmd = ''arduino-cli lib outdated --format json''
      then ExecStdout (Some (JObj [(''libraries'',
             JArr [JObj [(''library'', JObj [(''name'', JStr ''Servo'')]),
                         (''release'', JObj [(''version'', JStr ''1.2.0'')])]])]))
      else ExecFailed (JsError GenericError ''unknown command''))"

definition exec_no_outdated :: exec_fn where
  "exec_no_outdated cmd =
     (if cmd = ''arduino-cli lib outdated --format json''
      then ExecFailed (JsError GenericError ''Command failed: lib outdated'')
      else exec_libs cmd)"

text \<open>
  A query fails when the command ends in an error or its output does not parse.
\<close>

definition query_fails :: "exec_fn \<Rightarrow> string \<Rightarrow> bool" where
  "query_fails exec command =
     (case exec command of
        ExecFailed e \<Rightarrow> True
      | ExecStdout None \<Rightarrow> True
      | ExecStdout (Some data) \<Rightarrow> False)"

section \<open>Properties\<close>

subsection \<open>Cache expiry\<close>

text \<open>
  Claim C3. A cache file whose modification time lies more than seven days
  (7 * 24 * 60 * 60 * 1000 ms) before the current time is a miss of the cache-load step,
  for the boards and for the libraries, so that the list operation goes on to fetch; a
  file of exactly seven days or less, holding a well-formed record, is a hit and its
  list is what the list operation returns.
\<close>

theorem C3_expired_cache_is_a_miss:
  "(boardsCacheFile w = Some f \<and> date_now w - mtime f > 7 * 24 * 60 * 60 * 1000 \<longrightarrow>
      loadBoardsFromCache w = (None, w) \<and> getAvailableBoards exec w = fetchBoards exec w) \<and>
   (cacheFile w = Some g \<and> date_now w - mtime g > 7 * 24 * 60 * 60 * 1000 \<longrightarrow>
      loadFromCache w = (None, w) \<and> getLibraries exec w = fetchLibraries exec w) \<and>
   (boardsCacheFile w = Some f \<and> date_now w - mtime f \<le> 7 * 24 * 60 * 60 * 1000 \<and>
    content f = Some c \<and> cached_list c ''boards'' = Some bs \<longrightarrow>
      fst (loadBoardsFromCache w) = Some bs \<and> fst (getAvailableBoards exec w) = Inr bs) \<and>
   (cacheFile w = Some g \<and> date_now w - mtime g \<le> 7 * 24 * 60 * 60 * 1000 \<and>
    content g = Some d \<and> cached_list d ''libraries'' = Some ls \<longrightarrow>
      fst (loadFromCache w) = Some ls \<and> fst (getLibraries exec w) = Inr ls)"
  by (simp add: loadBoardsFromCache_def loadFromCache_def getAvailableBoards_def getLibraries_def
      cacheExpiration_def)

theorem C3_expired_cache_is_a_miss_witness:
  "loadBoardsFromCache world_expired = (None, world_expired) \<and>
   loadFromCache world_expired = (None, world_expired) \<and>
   fst (getAvailableBoards exec_unavailable world_week_old)
     = Inr [common_board ''My Board'' ''x:y:z''] \<and>
   fst (getLibraries exec_unavailable world_week_old)
     = Inr [JObj [(''name'', JStr ''Servo''), (''installed'', JBool True),
                  (''hasUpdate'', JBool False)]]"
  using C3_expired_cache_is_a_miss
          [where w = world_expired
             and f = "boards_file (1700000000000 - 604800001)"
             and g = "libs_file (1700000000000 - 604800001)" and exec = exec_unavailable]
        C3_expired_cache_is_a_miss
          [where w = world_week_old
             and f = "boards_file (1700000000000 - 604800000)"
             and g = "libs_file (1700000000000 - 604800000)" and exec = exec_unavailable
             and c = "JObj [(''boards'', JArr [common_board ''My Board'' ''x:y:z'']),
                            (''timestamp'', JNum (1700000000000 - 604800000))]"
             and bs = "[common_board ''My Board'' ''x:y:z'']"
             and d = "JObj [(''libraries'', JArr [JObj [(''name'', JStr ''Servo''),
                              (''installed'', JBool True), (''hasUpdate'', JBool False)]]),
                            (''timestamp'', JNum (1700000000000 - 604800000))]"
             and ls = "[JObj [(''name'', JStr ''Servo''), (''installed'', JBool True),
                              (''hasUpdate'', JBool False)]]"]
  by (simp add: world_expired_def world_week_old_def world0_def boards_file_def libs_file_def
      cached_list_def)

subsection \<open>Corrupt cache files\<close>

text \<open>
  Claim C4. With a cache file that exists but is corrupt (unparseable, or without the
  expected array field), the list operation returns what it returns in the same state
  with the cache file absent, shows the same notifications, and does not fail; for the
  boards and for the libraries, whatever the tool answers.
\<close>

theorem C4_corrupt_cache_is_a_miss:
  "(boardsCacheFile w = Some f \<and> corrupt f ''boards'' \<longrightarrow>
      fst (getAvailableBoards exec w)
        = fst (getAvailableBoards exec (w\<lparr>boardsCacheFile := None\<rparr>)) \<and>
      notifications (snd (getAvailableBoards exec w))
        = notifications (snd (getAvailableBoards exec (w\<lparr>boardsCacheFile := None\<rparr>))) \<and>
      \<not> isl (fst (getAvailableBoards exec w))) \<and>
   (cacheFile w = Some g \<and> corrupt g ''libraries'' \<longrightarrow>
      fst (getLibraries exec w) = fst (getLibraries exec (w\<lparr>cacheFile := None\<rparr>)) \<and>
      notifications (snd (getLibraries exec w))
        = notifications (snd (getLibraries exec (w\<lparr>cacheFile := None\<rparr>))) \<and>
      \<not> isl (fst (getLibraries exec w)))"
proof -
  have boards: "boardsCacheFile w = Some f \<Longrightarrow> corrupt f ''boards'' \<Longrightarrow>
      fst (getAvailableBoards exec w)
        = fst (getAvailableBoards exec (w\<lparr>boardsCacheFile := None\<rparr>)) \<and>
      notifications (snd (getAvailableBoards exec w))
        = notifications (snd (getAvailableBoards exec (w\<lparr>boardsCacheFile := None\<rparr>))) \<and>
      \<not> isl (fst (getAvailableBoards exec w))"
    by (simp add: getAvailableBoards_def fetchBoards_def Let_def showErrorMessage_def
        showInformationMessage_def loadBoardsFromCache_def corrupt_def saveBoardsToCache_def
        split: sum.splits option.splits)
  have libs: "cacheFile w = Some g \<Longrightarrow> corrupt g ''libraries'' \<Longrightarrow>
      fst (getLibraries exec w) = fst (getLibraries exec (w\<lparr>cacheFile := None\<rparr>)) \<and>
      notifications (snd (getLibraries exec w))
        = notifications (snd (getLibraries exec (w\<lparr>cacheFile := None\<rparr>))) \<and>
      \<not> isl (fst (getLibraries exec w))"
    by (simp add: getLibraries_def fetchLibraries_def Let_def showErrorMessage_def
        showInformationMessage_def loadFromCache_def corrupt_def saveToCache_def
        split: sum.splits option.splits)
  from boards libs show ?thesis by blast
qed

theorem C4_corrupt_cache_is_a_miss_witness:
  "corrupt wrong_shape_file ''boards'' \<and> corrupt corrupt_file ''libraries'' \<and>
   fst (getAvailableBoards exec_boards world_corrupt)
     = Inr [JObj [(''label'', JStr ''Arduino Due''), (''fqbn'', JStr ''arduino:sam:due''),
                  (''name'', JStr ''Arduino Due'')]] \<and>
   fst (getAvailableBoards exec_boards (world_corrupt\<lparr>boardsCacheFile := None\<rparr>))
     = Inr [JObj [(''label'', JStr ''Arduino Due''), (''fqbn'', JStr ''arduino:sam:due''),
                  (''name'', JStr ''Arduino Due'')]] \<and>
   fst (getLibraries exec_boards world_corrupt) = Inr [] \<and>
   fst (getLibraries exec_boards (world_corrupt\<lparr>cacheFile := None\<rparr>)) = Inr []"
  using C4_corrupt_cache_is_a_miss [where w = world_corrupt and f = wrong_shape_file
      and g = corrupt_file and exec = exec_boards]
  by (simp add: world_corrupt_def world0_def corrupt_def wrong_shape_file_def corrupt_file_def
      cached_list_def getAvailableBoards_def fetchBoards_def loadBoardsFromCache_def
      getAvailableBoardsStreaming_def exec_boards_def get_prop_def js_or_def board_item_def
      showInformationMessage_def showErrorMessage_def saveBoardsToCache_def
      getLibraries_def fetchLibraries_def loadFromCache_def fetch_join_def
      getInstalledLibraries_def)

subsection \<open>The static defaults\<close>

lemma boards_streaming_fails:
  "exec (cli @ '' board listall --format json'') = ExecFailed e \<Longrightarrow> getAvailableBoardsStreaming exec cli = Inl e"
  by (simp add: getAvailableBoardsStreaming_def)

lemma fetch_join_fails:
  "exec (cli @ '' lib list --format json'') = ExecFailed e \<Longrightarrow> fetch_join exec cli = Inl e"
  by (simp add: fetch_join_def getInstalledLibraries_def)

text \<open>
  Claim C6. With no cache file and a tool whose every invocation fails, the board list
  is exactly the twelve hardcoded boards (Uno, Nano, Mega, Leonardo, Micro, Pro Mini,
  ESP32, ESP32-S3, ESP8266 NodeMCU, ESP8266 Generic, Teensy 3.2, Teensy 4.0) and the
  library list is empty.
\<close>

theorem C6_defaults_without_cache_and_tool:
  "(boardsCacheFile w = None \<and> (\<forall>cmd. \<exists>e. exec cmd = ExecFailed e) \<longrightarrow>
      fst (getAvailableBoards exec w) =
        Inr [common_board ''Arduino Uno'' ''arduino:avr:uno'',
             common_board ''Arduino Nano'' ''arduino:avr:nano'',
             common_board ''Arduino Mega'' ''arduino:avr:mega'',
             common_board ''Arduino Leonardo'' ''arduino:avr:leonardo'',
             common_board ''Arduino Micro'' ''arduino:avr:micro'',
             common_board ''Arduino Pro Mini'' ''arduino:avr:pro'',
             common_board ''ESP32 Dev Module'' ''esp32:esp32:esp32'',
             common_board ''ESP32-S3 Dev Module'' ''esp32:esp32:esp32s3'',
             common_board ''ESP8266 NodeMCU'' ''esp8266:esp8266:nodemcuv2'',
             common_board ''ESP8266 Generic'' ''esp8266:esp8266:generic'',
             common_board ''Teensy 3.2'' ''teensy:avr:teensy32'',
             common_board ''Teensy 4.0'' ''teensy:avr:teensy40''] \<and>
      length (projr (fst (getAvailableBoards exec w))) = 12) \<and>
   (cacheFile w = None \<and> (\<forall>cmd. \<exists>e. exec cmd = ExecFailed e) \<longrightarrow>
      fst (getLibraries exec w) = Inr [])"
proof -
  have boards: "fst (getAvailableBoards exec w) = Inr getCommonBoards"
    if "boardsCacheFile w = None" and "\<forall>cmd. \<exists>e. exec cmd = ExecFailed e"
  proof -
    from that(2) obtain e where "exec (arduinoCliPath w @ '' board listall --format json'') = ExecFailed e"
      by blast
    then have "getAvailableBoardsStreaming exec (arduinoCliPath w) = Inl e"
      by (rule boards_streaming_fails)
    with that(1) show ?thesis
      by (simp add: getAvailableBoards_def fetchBoards_def loadBoardsFromCache_def
          showInformationMessage_def showErrorMessage_def)
  qed
  have libs: "fst (getLibraries exec w) = Inr []"
    if "cacheFile w = None" and "\<forall>cmd. \<exists>e. exec cmd = ExecFailed e"
  proof -
    from that(2) obtain e where "exec (arduinoCliPath w @ '' lib list --format json'') = ExecFailed e"
      by blast
    then have "fetch_join exec (arduinoCliPath w) = Inl e"
      by (rule fetch_join_fails)
    with that(1) show ?thesis
      by (simp add: getLibraries_def fetchLibraries_def loadFromCache_def
          showInformationMessage_def showErrorMessage_def)
  qed
  from boards libs show ?thesis
    by (simp add: getCommonBoards_def)
qed

theorem C6_defaults_without_cache_and_tool_witness:
  "boardsCacheFile world0 = None \<and> cacheFile world0 = None \<and>
   map (\<lambda>b. opt_prop b ''name'') (projr (fst (getAvailableBoards exec_unavailable world0)))
     = [JStr ''Arduino Uno'', JStr ''Arduino Nano'', JStr ''Arduino Mega'', JStr ''Arduino Leonardo'',
        JStr ''Arduino Micro'', JStr ''Arduino Pro Mini'', JStr ''ESP32 Dev Module'',
        JStr ''ESP32-S3 Dev Module'', JStr ''ESP8266 NodeMCU'', JStr ''ESP8266 Generic'',
        JStr ''Teensy 3.2'', JStr ''Teensy 4.0''] \<and>
   fst (getLibraries exec_unavailable world0) = Inr []"
  using C6_defaults_without_cache_and_tool [where w = world0 and exec = exec_unavailable]
  by (simp add: world0_def exec_unavailable_def common_board_def)

subsection \<open>The fallback after a failed fetch\<close>

text \<open>
  When a fetch fails after the cache-load step has missed, the second look at the cache
  misses again: it runs the same loader, with its expiry test, on the same file. So the
  fallback never returns cached data in the list operations, and the stale cache of the
  specification's step (3) is not used.
\<close>

lemma fetchBoards_fallback_never_hits:
  "fst (loadBoardsFromCache w) = None \<Longrightarrow> getAvailableBoardsStreaming exec (arduinoCliPath w) = Inl e \<Longrightarrow>
   fst (fetchBoards exec w) = Inr getCommonBoards"
  by (auto simp add: fetchBoards_def loadBoardsFromCache_def showInformationMessage_def showErrorMessage_def
      Let_def
      split: option.splits if_splits)

lemma fetchLibraries_fallback_never_hits:
  "fst (loadFromCache w) = None \<Longrightarrow> fetch_join exec (arduinoCliPath w) = Inl e \<Longrightarrow>
   fst (fetchLibraries exec w) = Inr []"
  by (auto simp add: fetchLibraries_def loadFromCache_def showInformationMessage_def showErrorMessage_def
      Let_def
      split: option.splits if_splits)

text \<open>
  The clock is constant in a command of the model. Reading it later would change
  nothing here: a miss stays a miss as time passes.
\<close>

lemma loadBoardsFromCache_miss_later:
  "fst (loadBoardsFromCache w) = None \<Longrightarrow> 0 \<le> d \<Longrightarrow>
   fst (loadBoardsFromCache (w\<lparr>date_now := date_now w + d\<rparr>)) = None"
  by (auto simp add: loadBoardsFromCache_def split: option.splits if_splits)

lemma loadFromCache_miss_later:
  "fst (loadFromCache w) = None \<Longrightarrow> 0 \<le> d \<Longrightarrow>
   fst (loadFromCache (w\<lparr>date_now := date_now w + d\<rparr>)) = None"
  by (auto simp add: loadFromCache_def split: option.splits if_splits)

text \<open>
  Claim C1, evaluated where it fails. The cache files are one millisecond older than
  seven days and hold well-formed lists; the tool cannot be run. The claim asks for the
  cached lists; the board list is the twelve static boards and the library list is
  empty.
\<close>

theorem C1_stale_cache_is_not_the_fallback:
  "boardsCacheFile world_expired = Some (boards_file (1700000000000 - 604800001)) \<and>
   cached_list (the (content (boards_file (1700000000000 - 604800001)))) ''boards''
     = Some [common_board ''My Board'' ''x:y:z''] \<and>
   getAvailableBoardsStreaming exec_unavailable (arduinoCliPath world_expired)
     = Inl (JsError GenericError ''Command failed'') \<and>
   fst (getAvailableBoards exec_unavailable world_expired) = Inr getCommonBoards \<and>
   fst (fetchBoards exec_unavailable world_expired) = Inr getCommonBoards \<and>
   cached_list (the (content (libs_file (1700000000000 - 604800001)))) ''libraries''
     = Some [JObj [(''name'', JStr ''Servo''), (''installed'', JBool True), (''hasUpdate'', JBool False)]] \<and>
   fst (getLibraries exec_unavailable world_expired) = Inr [] \<and>
   fst (fetchLibraries exec_unavailable world_expired) = Inr []"
  by (simp add: world_expired_def world0_def boards_file_def libs_file_def cached_list_def
      getAvailableBoardsStreaming_def exec_unavailable_def getAvailableBoards_def fetchBoards_def
      loadBoardsFromCache_def cacheExpiration_def showInformationMessage_def showErrorMessage_def
      getLibraries_def fetchLibraries_def loadFromCache_def fetch_join_def getInstalledLibraries_def)

subsection \<open>Manual refresh\<close>

text \<open>
  The fetch operations catch every failure themselves, so they always resolve; and a
  fetch that starts without a cache file leaves behind the fresh list, or no file.
\<close>

lemma fetchBoards_resolves: "\<exists>bs. fst (fetchBoards exec w) = Inr bs"
  by (simp add: fetchBoards_def Let_def split: sum.splits prod.splits option.splits)

lemma fetchLibraries_resolves: "\<exists>ls. fst (fetchLibraries exec w) = Inr ls"
  by (simp add: fetchLibraries_def Let_def split: sum.splits prod.splits option.splits)

lemma fetchBoards_file:
  "boardsCacheFile w = None \<Longrightarrow> fs_writable w \<Longrightarrow>
   boardsCacheFile (snd (fetchBoards exec w)) =
     (case getAvailableBoardsStreaming exec (arduinoCliPath w) of
        Inl e \<Rightarrow> None
      | Inr boards \<Rightarrow>
          Some \<lparr>mtime = date_now w,
                content = Some (stringify_parse
                  (JObj [(''boards'', JArr boards), (''timestamp'', JNum (date_now w))]))\<rparr>)"
  by (simp add: fetchBoards_def Let_def showInformationMessage_def showErrorMessage_def
      loadBoardsFromCache_def saveBoardsToCache_def split: sum.splits)

lemma fetchLibraries_file:
  "cacheFile w = None \<Longrightarrow> fs_writable w \<Longrightarrow>
   cacheFile (snd (fetchLibraries exec w)) =
     (case fetch_join exec (arduinoCliPath w) of
        Inl e \<Rightarrow> None
      | Inr libraries \<Rightarrow>
          Some \<lparr>mtime = date_now w,
                content = Some (stringify_parse
                  (JObj [(''libraries'', JArr libraries), (''timestamp'', JNum (date_now w))]))\<rparr>)"
  by (simp add: fetchLibraries_def Let_def showInformationMessage_def showErrorMessage_def
      loadFromCache_def saveToCache_def split: sum.splits)

text \<open>
  Claim C2 as stated fails: with a tool that cannot be run the re-fetch fails, and the
  refresh resolves all the same, its last notification reporting success.
\<close>

theorem C2_refresh_does_not_raise_counterexample:
  "getAvailableBoardsStreaming exec_unavailable (arduinoCliPath world_expired)
     = Inl (JsError GenericError ''Command failed'') \<and>
   fst (refreshBoardsCache exec_unavailable world_expired) = Inr () \<and>
   last (notifications (snd (refreshBoardsCache exec_unavailable world_expired)))
     = Information ''Boards cache refreshed successfully!'' \<and>
   fetch_join exec_unavailable (arduinoCliPath world_expired)
     = Inl (JsError GenericError ''Command failed'') \<and>
   fst (refreshCache exec_unavailable world_expired) = Inr () \<and>
   last (notifications (snd (refreshCache exec_unavailable world_expired)))
     = Information ''Library cache refreshed successfully!''"
  by (simp add: world_expired_def world0_def refreshBoardsCache_def refreshCache_def
      getAvailableBoardsStreaming_def exec_unavailable_def fetchBoards_def fetchLibraries_def
      loadBoardsFromCache_def loadFromCache_def showInformationMessage_def showErrorMessage_def
      fetch_join_def getInstalledLibraries_def)

text \<open>
  Claim C2, amended. A manual refresh always resolves and returns no list. On a
  writable file system it deletes the cache file and fetches: afterwards the cache file
  holds the freshly fetched list, stamped with the current time, when the fetch
  succeeded, and is absent when the fetch failed, so that neither the old contents nor
  the static list is kept as the cache.
\<close>

theorem C2_refresh_deletes_then_fetches:
  "fst (refreshBoardsCache exec w) = Inr () \<and>
   fst (refreshCache exec w) = Inr () \<and>
   (fs_writable w \<longrightarrow>
      boardsCacheFile (snd (refreshBoardsCache exec w)) =
        (case getAvailableBoardsStreaming exec (arduinoCliPath w) of
           Inl e \<Rightarrow> None
         | Inr boards \<Rightarrow>
             Some \<lparr>mtime = date_now w,
                   content = Some (stringify_parse
                     (JObj [(''boards'', JArr boards), (''timestamp'', JNum (date_now w))]))\<rparr>) \<and>
      cacheFile (snd (refreshCache exec w)) =
        (case fetch_join exec (arduinoCliPath w) of
           Inl e \<Rightarrow> None
         | Inr libraries \<Rightarrow>
             Some \<lparr>mtime = date_now w,
                   content = Some (stringify_parse
                     (JObj [(''libraries'', JArr libraries), (''timestamp'', JNum (date_now w))]))\<rparr>))"
proof -
  have r1: "fst (refreshBoardsCache exec w) = Inr ()"
    by (simp add: refreshBoardsCache_def Let_def split: prod.splits sum.splits)
  have r2: "fst (refreshCache exec w) = Inr ()"
    by (simp add: refreshCache_def Let_def split: prod.splits sum.splits)
  have b: "boardsCacheFile (snd (refreshBoardsCache exec w)) =
        (case getAvailableBoardsStreaming exec (arduinoCliPath w) of
           Inl e \<Rightarrow> None
         | Inr boards \<Rightarrow>
             Some \<lparr>mtime = date_now w,
                   content = Some (stringify_parse
                     (JObj [(''boards'', JArr boards), (''timestamp'', JNum (date_now w))]))\<rparr>)"
    if "fs_writable w"
  proof -
    let ?w = "(showInformationMessage ''Refreshing boards cache...'' w)\<lparr>boardsCacheFile := None\<rparr>"
    obtain bs where bs: "fst (fetchBoards exec ?w) = Inr bs"
      using fetchBoards_resolves by blast
    have "boardsCacheFile (snd (refreshBoardsCache exec w)) = boardsCacheFile (snd (fetchBoards exec ?w))"
      using that bs
      by (cases "fetchBoards exec ?w")
         (simp add: refreshBoardsCache_def Let_def showInformationMessage_def)
    also have "\<dots> = (case getAvailableBoardsStreaming exec (arduinoCliPath ?w) of
           Inl e \<Rightarrow> None
         | Inr boards \<Rightarrow>
             Some \<lparr>mtime = date_now ?w,
                   content = Some (stringify_parse
                     (JObj [(''boards'', JArr boards), (''timestamp'', JNum (date_now ?w))]))\<rparr>)"
      using that by (intro fetchBoards_file) (simp_all add: showInformationMessage_def)
    finally show ?thesis by (simp add: showInformationMessage_def split: sum.splits)
  qed
  have l: "cacheFile (snd (refreshCache exec w)) =
        (case fetch_join exec (arduinoCliPath w) of
           Inl e \<Rightarrow> None
         | Inr libraries \<Rightarrow>
             Some \<lparr>mtime = date_now w,
                   content = Some (stringify_parse
                     (JObj [(''libraries'', JArr libraries), (''timestamp'', JNum (date_now w))]))\<rparr>)"
    if "fs_writable w"
  proof -
    let ?w = "(showInformationMessage ''Refreshing library cache...'' w)\<lparr>cacheFile := None\<rparr>"
    obtain ls where ls: "fst (fetchLibraries exec ?w) = Inr ls"
      using fetchLibraries_resolves by blast
    have "cacheFile (snd (refreshCache exec w)) = cacheFile (snd (fetchLibraries exec ?w))"
      using that ls
      by (cases "fetchLibraries exec ?w")
         (simp add: refreshCache_def Let_def showInformationMessage_def)
    also have "\<dots> = (case fetch_join exec (arduinoCliPath ?w) of
           Inl e \<Rightarrow> None
         | Inr libraries \<Rightarrow>
             Some \<lparr>mtime = date_now ?w,
                   content = Some (stringify_parse
                     (JObj [(''libraries'', JArr libraries), (''timestamp'', JNum (date_now ?w))]))\<rparr>)"
      using that by (intro fetchLibraries_file) (simp_all add: showInformationMessage_def)
    finally show ?thesis by (simp add: showInformationMessage_def split: sum.splits)
  qed
  from r1 r2 b l show ?thesis by blast
qed

theorem C2_refresh_deletes_then_fetches_witness:
  "fs_writable world_expired \<and>
   boardsCacheFile (snd (refreshBoardsCache exec_unavailable world_expired)) = None \<and>
   cacheFile (snd (refreshCache exec_unavailable world_expired)) = None \<and>
   boardsCacheFile (snd (refreshBoardsCache exec_boards world_expired)) =
     Some \<lparr>mtime = 1700000000000,
           content = Some (JObj [(''boards'', JArr [JObj [(''label'', JStr ''Arduino Due''),
                        (''fqbn'', JStr ''arduino:sam:due''), (''name'', JStr ''Arduino Due'')]]),
                      (''timestamp'', JNum 1700000000000)])\<rparr>"
  using C2_refresh_deletes_then_fetches [where w = world_expired and exec = exec_unavailable]
        C2_refresh_deletes_then_fetches [where w = world_expired and exec = exec_boards]
  by (simp add: world_expired_def world0_def exec_unavailable_def exec_boards_def
      getAvailableBoardsStreaming_def fetch_join_def getInstalledLibraries_def
      get_prop_def js_or_def board_item_def)

subsection \<open>The command runner\<close>

lemma show_int_127: "show_int 127 = ''127''"
  by (simp add: show_int_def show_nat.simps digit_char_def)

text \<open>
  Claim C8. A command run by the command runner resolves exactly when the child process
  closes with exit code 0; when it closes with a code \<open>c\<close> other than 0 the runner
  rejects with an error whose message ends with \<open>c\<close> in decimal.
\<close>

theorem C8_exit_code_decides:
  "(fst (runCommand spawn command cwd w) = Inr () \<longleftrightarrow>
      ending (spawn command cwd) = OnClose (Some 0)) \<and>
   (\<forall>c. c \<noteq> 0 \<and> ending (spawn command cwd) = OnClose (Some c) \<longrightarrow>
      fst (runCommand spawn command cwd w)
        = Inl (JsError GenericError (''Command failed with exit code '' @ show_int c)))"
  by (auto simp add: runCommand_def Let_def split: child_end.splits)

theorem C8_exit_code_decides_witness:
  "fst (runCommand (spawn_exit 0) ''arduino-cli compile'' ''/home/user/sketch'' world0) = Inr () \<and>
   fst (runCommand (spawn_exit 127) ''arduino-cli compile'' ''/home/user/sketch'' world0)
     = Inl (JsError GenericError ''Command failed with exit code 127'')"
  using C8_exit_code_decides [where spawn = "spawn_exit 0" and command = "''arduino-cli compile''"
          and cwd = "''/home/user/sketch''" and w = world0]
        C8_exit_code_decides [where spawn = "spawn_exit 127" and command = "''arduino-cli compile''"
          and cwd = "''/home/user/sketch''" and w = world0]
  by (simp add: spawn_exit_def show_int_127)

subsection \<open>Upload\<close>

text \<open>
  The command lines of a configuration whose board and port are strings, as the
  configuration's type declares them: the strings go into the lines as they are, and
  nothing throws.
\<close>

lemma compile_command_strings:
  "board (config w) = JStr b \<Longrightarrow>
   compile_command number_text w
     = Inr (compile_line (arduinoCliPath w) b (currentDirectory w))"
  by (simp add: compile_command_def)

lemma upload_command_strings:
  "board (config w) = JStr b \<Longrightarrow> port (config w) = JStr p \<Longrightarrow>
   upload_command number_text w
     = Inr (upload_line (arduinoCliPath w) p b (currentDirectory w))"
  by (simp add: upload_command_def)

text \<open>What upload starts, in every case.\<close>

lemma upload_spawned:
  "spawned (snd (upload number_text spawn w)) =
     spawned w @
     (if currentDirectory w = [] then []
      else case compile_command number_text w of
             Inl e \<Rightarrow> []
           | Inr c \<Rightarrow>
               if ending (spawn c (currentDirectory w)) = OnClose (Some 0)
               then (case upload_command number_text w of
                       Inl e \<Rightarrow> [c]
                     | Inr u \<Rightarrow> [c, u])
               else [c])"
  by (simp add: upload_def Let_def runCommand_def appendLine_def upload_failed_def
      showErrorMessage_def showInformationMessage_def
      split: child_end.splits sum.splits)

lemma upload_resolves: "fst (upload number_text spawn w) = Inr ()"
  by (simp add: upload_def Let_def split: prod.splits sum.splits)

text \<open>
  Claim C5. In a workspace, with a configuration whose board and port are strings (the
  type of the configuration), upload starts the compile command first; it starts the
  upload command after it exactly when the compile command closed with exit code 0, and
  starts nothing else, so that it starts the two commands in this order or the compile
  command alone. The same holds whenever both command lines can be built. Whenever the
  compile command was started and failed, whatever the port, the upload command is never
  started. (Without a workspace folder upload starts no command at all; upload itself
  always resolves.)
\<close>

theorem C5_upload_after_compile:
  "fst (upload number_text spawn w) = Inr () \<and>
   (currentDirectory w \<noteq> [] \<and> board (config w) = JStr b \<and> port (config w) = JStr p \<longrightarrow>
      spawned (snd (upload number_text spawn w)) =
        spawned w @
        (if ending (spawn (compile_line (arduinoCliPath w) b (currentDirectory w))
                      (currentDirectory w)) = OnClose (Some 0)
         then [compile_line (arduinoCliPath w) b (currentDirectory w),
               upload_line (arduinoCliPath w) p b (currentDirectory w)]
         else [compile_line (arduinoCliPath w) b (currentDirectory w)])) \<and>
   (currentDirectory w \<noteq> [] \<and> compile_command number_text w = Inr c \<and>
    upload_command number_text w = Inr u \<longrightarrow>
      spawned (snd (upload number_text spawn w)) =
        spawned w @
        (if ending (spawn c (currentDirectory w)) = OnClose (Some 0) then [c, u] else [c])) \<and>
   (currentDirectory w \<noteq> [] \<and> compile_command number_text w = Inr c \<and>
    ending (spawn c (currentDirectory w)) \<noteq> OnClose (Some 0) \<longrightarrow>
      spawned (snd (upload number_text spawn w)) = spawned w @ [c]) \<and>
   (currentDirectory w = [] \<longrightarrow> spawned (snd (upload number_text spawn w)) = spawned w)"
proof -
  have r: "fst (upload number_text spawn w) = Inr ()"
    by (rule upload_resolves)
  have s: "spawned (snd (upload number_text spawn w)) =
        spawned w @
        (if ending (spawn (compile_line (arduinoCliPath w) b (currentDirectory w))
                      (currentDirectory w)) = OnClose (Some 0)
         then [compile_line (arduinoCliPath w) b (currentDirectory w),
               upload_line (arduinoCliPath w) p b (currentDirectory w)]
         else [compile_line (arduinoCliPath w) b (currentDirectory w)])"
    if "currentDirectory w \<noteq> []" "board (config w) = JStr b" "port (config w) = JStr p"
    using that
    by (simp add: upload_spawned compile_command_strings upload_command_strings)
  have g: "spawned (snd (upload number_text spawn w)) =
        spawned w @
        (if ending (spawn c (currentDirectory w)) = OnClose (Some 0) then [c, u] else [c])"
    if "currentDirectory w \<noteq> []" "compile_command number_text w = Inr c"
      "upload_command number_text w = Inr u"
    using that by (simp add: upload_spawned)
  have f: "spawned (snd (upload number_text spawn w)) = spawned w @ [c]"
    if "currentDirectory w \<noteq> []" "compile_command number_text w = Inr c"
      "ending (spawn c (currentDirectory w)) \<noteq> OnClose (Some 0)"
    using that by (simp add: upload_spawned)
  have e: "spawned (snd (upload number_text spawn w)) = spawned w"
    if "currentDirectory w = []"
    using that by (simp add: upload_spawned)
  from r s g f e show ?thesis by blast
qed

theorem C5_upload_after_compile_witness:
  "currentDirectory world0 \<noteq> [] \<and>
   board (config world0) = JStr ''arduino:avr:uno'' \<and>
   port (config world0) = JStr ''/dev/ttyACM0'' \<and>
   compile_command show_int world0
     = Inr (''arduino-cli compile --fqbn arduino:avr:uno '' @ [CHR 0x22] @
            ''/home/user/sketch'' @ [CHR 0x22]) \<and>
   upload_command show_int world0
     = Inr (''arduino-cli upload -p /dev/ttyACM0 --fqbn arduino:avr:uno '' @ [CHR 0x22] @
            ''/home/user/sketch'' @ [CHR 0x22]) \<and>
   spawned (snd (upload show_int spawn_compile_fails world0))
     = [''arduino-cli compile --fqbn arduino:avr:uno '' @ [CHR 0x22] @
        ''/home/user/sketch'' @ [CHR 0x22]] \<and>
   spawned (snd (upload show_int (spawn_exit 0) world0))
     = [''arduino-cli compile --fqbn arduino:avr:uno '' @ [CHR 0x22] @
        ''/home/user/sketch'' @ [CHR 0x22],
        ''arduino-cli upload -p /dev/ttyACM0 --fqbn arduino:avr:uno '' @ [CHR 0x22] @
        ''/home/user/sketch'' @ [CHR 0x22]]"
  using C5_upload_after_compile [where number_text = show_int and spawn = spawn_compile_fails
          and w = world0 and b = "''arduino:avr:uno''" and p = "''/dev/ttyACM0''"
          and c = "compile_line ''arduino-cli'' ''arduino:avr:uno'' ''/home/user/sketch''"
          and u = "upload_line ''arduino-cli'' ''/dev/ttyACM0'' ''arduino:avr:uno''
                     ''/home/user/sketch''"]
        C5_upload_after_compile [where number_text = show_int and spawn = "spawn_exit 0"
          and w = world0 and b = "''arduino:avr:uno''" and p = "''/dev/ttyACM0''"
          and c = "compile_line ''arduino-cli'' ''arduino:avr:uno'' ''/home/user/sketch''"
          and u = "upload_line ''arduino-cli'' ''/dev/ttyACM0'' ''arduino:avr:uno''
                     ''/home/user/sketch''"]
  by (simp add: spawn_compile_fails_def spawn_exit_def world0_def compile_command_def
      upload_command_def compile_line_def upload_line_def)

text \<open>
  A board or port that cannot be converted to text stops upload where its command line
  is built: an object with a \<^verbatim>\<open>toString\<close> property of its own as the port lets the
  compile command run and then starts nothing more, and as the board starts nothing.
\<close>

lemma upload_port_not_convertible:
  "currentDirectory w \<noteq> [] \<Longrightarrow> board (config w) = JStr b \<Longrightarrow>
   port (config w) = JObj kvs \<Longrightarrow> map_of kvs ''toString'' \<noteq> None \<Longrightarrow>
   spawned (snd (upload number_text spawn w))
     = spawned w @ [compile_line (arduinoCliPath w) b (currentDirectory w)]"
  by (auto simp add: upload_spawned compile_command_strings upload_command_def)

lemma upload_board_not_convertible:
  "currentDirectory w \<noteq> [] \<Longrightarrow> board (config w) = JObj kvs \<Longrightarrow>
   map_of kvs ''toString'' \<noteq> None \<Longrightarrow>
   spawned (snd (upload number_text spawn w)) = spawned w"
  by (auto simp add: upload_spawned compile_command_def)

subsection \<open>Loading the configuration\<close>

text \<open>
  Claim C9. When the configuration file is loaded, each of board, port and baudrate
  takes the loaded value only if that value is truthy; a field that is missing, the
  empty string or the number 0 leaves the value held before, so a stored baud rate of 0
  or an empty port is ignored. This holds whatever the file parses to; and unless it
  parses to \<^verbatim>\<open>null\<close>, the only notification is that the configuration was loaded.
\<close>

theorem C9_falsy_values_keep_the_default:
  "configFile w = Some f \<and> content f = Some loaded \<longrightarrow>
     board (config (loadConfig w))
       = (if truthy (opt_prop loaded ''board'') then opt_prop loaded ''board'' else board (config w)) \<and>
     port (config (loadConfig w))
       = (if truthy (opt_prop loaded ''port'') then opt_prop loaded ''port'' else port (config w)) \<and>
     baudrate (config (loadConfig w))
       = (if truthy (opt_prop loaded ''baudrate'') then opt_prop loaded ''baudrate''
          else baudrate (config w)) \<and>
     (opt_prop loaded ''board'' \<in> {JUndefined, JStr [], JNum 0} \<longrightarrow>
        board (config (loadConfig w)) = board (config w)) \<and>
     (opt_prop loaded ''port'' \<in> {JUndefined, JStr [], JNum 0} \<longrightarrow>
        port (config (loadConfig w)) = port (config w)) \<and>
     (opt_prop loaded ''baudrate'' \<in> {JUndefined, JStr [], JNum 0} \<longrightarrow>
        baudrate (config (loadConfig w)) = baudrate (config w)) \<and>
     (loaded \<noteq> JNull \<and> loaded \<noteq> JUndefined \<longrightarrow>
        notifications (loadConfig w)
          = notifications w @ [Information (''Config loaded from: '' @ configFilePath w)])"
  by (auto simp add: loadConfig_def get_prop_def js_or_def Let_def showInformationMessage_def
      loadConfig_failed_def createDefaultConfig_def saveConfig_def showErrorMessage_def)

theorem C9_falsy_values_keep_the_default_witness:
  "config (loadConfig (world0\<lparr>configFile := Some config_file\<rparr>))
     = \<lparr>board = JStr ''esp32:esp32:esp32'', port = JStr ''/dev/ttyACM0'', baudrate = JNum 115200\<rparr> \<and>
   notifications (loadConfig (world0\<lparr>configFile := Some config_file\<rparr>))
     = [Information ''Config loaded from: /home/user/sketch/.arduino_config.json'']"
  using C9_falsy_values_keep_the_default [where w = "world0\<lparr>configFile := Some config_file\<rparr>"
      and f = config_file
      and loaded = "JObj [(''board'', JStr ''esp32:esp32:esp32''), (''port'', JStr []), (''baudrate'', JNum 0)]"]
  by (simp add: world0_def config_file_def)

subsection \<open>Joining the library lists\<close>

text \<open>
  What the two loops put into their maps: a name is a key of the map of installed
  libraries exactly when some entry of the list carries it as the truthy name of a
  truthy library, and a key of the map of outdated libraries exactly when some entry
  carries it together with a truthy release version.
\<close>

lemma installed_loop_has:
  "installed_loop entries m = Inr m' \<Longrightarrow>
   map_has m' k \<longleftrightarrow>
     map_has m k \<or>
     (is_primitive k \<and> truthy k \<and>
      (\<exists>entry \<in> set entries. truthy (opt_prop entry ''library'') \<and>
          opt_prop (opt_prop entry ''library'') ''name'' = k))"
proof (induction entries arbitrary: m)
  case Nil
  then show ?case by simp
next
  case (Cons entry rest)
  then show ?case
    by (auto simp add: get_prop_def map_set_def map_has_def split: if_splits)
qed

lemma outdated_loop_has:
  "outdated_loop entries m = Inr m' \<Longrightarrow>
   map_has m' k \<longleftrightarrow>
     map_has m k \<or>
     (is_primitive k \<and> truthy k \<and>
      (\<exists>entry \<in> set entries. opt_prop (opt_prop entry ''library'') ''name'' = k \<and>
          truthy (opt_prop (opt_prop entry ''release'') ''version'')))"
proof (induction entries arbitrary: m)
  case Nil
  then show ?case by simp
next
  case (Cons entry rest)
  then show ?case
    by (auto simp add: get_prop_def map_set_def map_has_def Let_def split: if_splits)
qed

text \<open>
  A version found in the map of outdated libraries is the release version of an entry
  with that name.
\<close>

lemma outdated_loop_get:
  "outdated_loop entries m = Inr m' \<Longrightarrow> m' k = Some v \<Longrightarrow>
   m k = Some v \<or>
   (\<exists>entry \<in> set entries. opt_prop (opt_prop entry ''library'') ''name'' = k \<and>
       opt_prop (opt_prop entry ''release'') ''version'' = v)"
proof (induction entries arbitrary: m)
  case Nil
  then show ?case by simp
next
  case (Cons entry rest)
  then show ?case
    by (fastforce simp add: get_prop_def map_set_def Let_def split: if_splits)
qed

text \<open>The same for the maps the two queries resolve to, in terms of the tool's output.\<close>

lemma getInstalledLibraries_has:
  assumes "exec (cli @ '' lib list --format json'') = ExecStdout (Some data)"
    and "opt_prop data ''installed_libraries'' = JArr entries"
    and "getInstalledLibraries exec cli = Inr installed"
  shows "map_has installed k \<longleftrightarrow>
     is_primitive k \<and> truthy k \<and>
     (\<exists>entry \<in> set entries. truthy (opt_prop entry ''library'') \<and>
         opt_prop (opt_prop entry ''library'') ''name'' = k)"
proof -
  from assms have "installed_loop entries Map.empty = Inr installed"
    by (simp add: getInstalledLibraries_def get_prop_def split: if_splits)
  from installed_loop_has [OF this, of k] show ?thesis
    by (simp add: map_has_def)
qed

lemma getOutdatedLibraries_has:
  assumes "exec (cli @ '' lib outdated --format json'') = ExecStdout (Some data)"
    and "opt_prop data ''libraries'' = JArr entries"
    and "outdated_of data = Inr outdated"
  shows "getOutdatedLibraries exec cli = Inr outdated"
    and "map_has outdated k \<longleftrightarrow>
     is_primitive k \<and> truthy k \<and>
     (\<exists>entry \<in> set entries. opt_prop (opt_prop entry ''library'') ''name'' = k \<and>
         truthy (opt_prop (opt_prop entry ''release'') ''version''))"
proof -
  from assms show "getOutdatedLibraries exec cli = Inr outdated"
    by (simp add: getOutdatedLibraries_def)
  from assms have "outdated_loop entries Map.empty = Inr outdated"
    by (simp add: outdated_of_def get_prop_def split: if_splits)
  from outdated_loop_has [OF this, of k]
  show "map_has outdated k \<longleftrightarrow>
     is_primitive k \<and> truthy k \<and>
     (\<exists>entry \<in> set entries. opt_prop (opt_prop entry ''library'') ''name'' = k \<and>
         truthy (opt_prop (opt_prop entry ''release'') ''version''))"
    by (simp add: map_has_def)
qed

lemma library_entry_props:
  "opt_prop (library_entry inst outd lib) ''name'' = opt_prop lib ''name''"
  "opt_prop (library_entry inst outd lib) ''installed'' = JBool (map_has inst (opt_prop lib ''name''))"
  "opt_prop (library_entry inst outd lib) ''hasUpdate'' = JBool (map_has outd (opt_prop lib ''name''))"
  "opt_prop (library_entry inst outd lib) ''latestVersion'' = map_get outd (opt_prop lib ''name'')"
  by (simp_all add: library_entry_def)

lemma fetchLibraries_join:
  "getInstalledLibraries exec (arduinoCliPath w) = Inr inst \<Longrightarrow>
   getOutdatedLibraries exec (arduinoCliPath w) = Inr outd \<Longrightarrow>
   getAvailableLibrariesStreaming exec (arduinoCliPath w) = Inr avail \<Longrightarrow>
   fst (fetchLibraries exec w) = Inr (map (library_entry inst outd) avail)"
  by (simp add: fetchLibraries_def fetch_join_def Let_def showInformationMessage_def)

text \<open>
  Claim C7. Whenever the three queries resolve (to a map of installed libraries, a map
  of outdated libraries and a list of search results), the fetched list has one entry
  per search result, in order and under the same name; the entry's \<open>installed\<close> flag
  says whether the map of installed libraries has the name, its \<open>hasUpdate\<close> flag
  whether the map of outdated libraries has it, and its \<open>latestVersion\<close> is the
  version that map records for the name, \<open>undefined\<close> when it records none.
\<close>

theorem C7_libraries_joined_by_name:
  "getInstalledLibraries exec (arduinoCliPath w) = Inr inst \<and>
   getOutdatedLibraries exec (arduinoCliPath w) = Inr outd \<and>
   getAvailableLibrariesStreaming exec (arduinoCliPath w) = Inr avail \<longrightarrow>
   (\<exists>libs. fst (fetchLibraries exec w) = Inr libs \<and> length libs = length avail \<and>
      (\<forall>i. i < length avail \<longrightarrow>
         opt_prop (libs ! i) ''name'' = opt_prop (avail ! i) ''name'' \<and>
         opt_prop (libs ! i) ''installed''
           = JBool (map_has inst (opt_prop (avail ! i) ''name'')) \<and>
         opt_prop (libs ! i) ''hasUpdate''
           = JBool (map_has outd (opt_prop (avail ! i) ''name'')) \<and>
         opt_prop (libs ! i) ''latestVersion''
           = (if map_has outd (opt_prop (avail ! i) ''name'')
              then the (outd (opt_prop (avail ! i) ''name'')) else JUndefined)))"
proof (intro impI, elim conjE)
  assume a: "getInstalledLibraries exec (arduinoCliPath w) = Inr inst"
    "getOutdatedLibraries exec (arduinoCliPath w) = Inr outd"
    "getAvailableLibrariesStreaming exec (arduinoCliPath w) = Inr avail"
  have g: "map_get outd n = (if map_has outd n then the (outd n) else JUndefined)" for n
    by (auto simp add: map_get_def map_has_def)
  from a have "fst (fetchLibraries exec w) = Inr (map (library_entry inst outd) avail)"
    by (rule fetchLibraries_join)
  then show "\<exists>libs. fst (fetchLibraries exec w) = Inr libs \<and> length libs = length avail \<and>
      (\<forall>i. i < length avail \<longrightarrow>
         opt_prop (libs ! i) ''name'' = opt_prop (avail ! i) ''name'' \<and>
         opt_prop (libs ! i) ''installed''
           = JBool (map_has inst (opt_prop (avail ! i) ''name'')) \<and>
         opt_prop (libs ! i) ''hasUpdate''
           = JBool (map_has outd (opt_prop (avail ! i) ''name'')) \<and>
         opt_prop (libs ! i) ''latestVersion''
           = (if map_has outd (opt_prop (avail ! i) ''name'')
              then the (outd (opt_prop (avail ! i) ''name'')) else JUndefined))"
    by (simp add: library_entry_props g)
qed

theorem C7_libraries_joined_by_name_witness:
  "map (\<lambda>lib. (opt_prop lib ''name'', opt_prop lib ''installed'', opt_prop lib ''hasUpdate'',
                opt_prop lib ''latestVersion''))
       (projr (fst (fetchLibraries exec_libs world0)))
     = [(JStr ''Servo'', JBool True, JBool True, JStr ''1.2.0''),
        (JStr ''WiFi'', JBool False, JBool False, JUndefined)]"
  using C7_libraries_joined_by_name [where exec = exec_libs and w = world0
      and inst = "[JStr ''Servo'' \<mapsto> JStr ''1.1.0'']"
      and outd = "[JStr ''Servo'' \<mapsto> JStr ''1.2.0'']"
      and avail = "[JObj [(''name'', JStr ''Servo''), (''version'', JStr ''1.2.0'')],
                    JObj [(''name'', JStr ''WiFi''), (''version'', JUndefined)]]"]
  by (simp add: world0_def fetchLibraries_def fetch_join_def showInformationMessage_def
      getInstalledLibraries_def getOutdatedLibraries_def outdated_of_def
      getAvailableLibrariesStreaming_def exec_libs_def get_prop_def js_or_def map_set_def
      map_has_def map_get_def library_entry_def saveToCache_def)

subsection \<open>A failing outdated query\<close>

lemma getOutdatedLibraries_resolves: "\<exists>m. getOutdatedLibraries exec cli = Inr m"
  by (simp add: getOutdatedLibraries_def split: exec_result.splits option.splits sum.splits)

lemma getOutdatedLibraries_failed:
  "query_fails exec (cli @ '' lib outdated --format json'') \<Longrightarrow>
   getOutdatedLibraries exec cli = Inr Map.empty"
  by (simp add: getOutdatedLibraries_def query_fails_def
      split: exec_result.splits option.splits)

lemma getInstalledLibraries_failed:
  "query_fails exec (cli @ '' lib list --format json'') \<Longrightarrow>
   \<exists>e. getInstalledLibraries exec cli = Inl e"
  by (simp add: getInstalledLibraries_def query_fails_def
      split: exec_result.splits option.splits)

lemma getAvailableLibrariesStreaming_failed:
  "query_fails exec (cli @ '' lib search --format json'') \<Longrightarrow>
   \<exists>e. getAvailableLibrariesStreaming exec cli = Inl e"
  by (simp add: getAvailableLibrariesStreaming_def query_fails_def
      split: exec_result.splits option.splits)

lemma library_entry_no_update:
  "opt_prop (library_entry inst Map.empty lib) ''hasUpdate'' = JBool False"
  "opt_prop (library_entry inst Map.empty lib) ''latestVersion'' = JUndefined"
  by (simp_all add: library_entry_def map_has_def map_get_def)

lemma loadFromCache_notifications:
  "fst (loadFromCache (w\<lparr>notifications := ns\<rparr>)) = fst (loadFromCache w)"
  by (simp add: loadFromCache_def showInformationMessage_def split: option.splits)

lemma fetchLibraries_fallback:
  "fetch_join exec (arduinoCliPath w) = Inl e \<Longrightarrow>
   fst (fetchLibraries exec w) = Inr (case fst (loadFromCache w) of Some cached \<Rightarrow> cached | None \<Rightarrow> []) \<and>
   ErrorMessage (''Error fetching libraries: '' @ error_toString e) \<in> set (notifications (snd (fetchLibraries exec w)))"
  apply (simp add: fetchLibraries_def Let_def showInformationMessage_def showErrorMessage_def)
  apply (simp add: loadFromCache_def showInformationMessage_def split: option.splits)
  done

text \<open>
  Claim C10. The outdated query never rejects, and resolves to the empty map when its
  command fails or its output does not parse. If the other two queries resolve, the
  fetch then returns the joined list with every \<open>hasUpdate\<close> false and every
  \<open>latestVersion\<close> undefined, and shows no error. A failing installed or search query
  does reject: the fetch shows the error and goes to the fallback, returning the list of
  the cache when the loader accepts it and the empty list otherwise.
\<close>

theorem C10_outdated_failure_is_absorbed:
  "(\<exists>m. getOutdatedLibraries exec (arduinoCliPath w) = Inr m) \<and>
   (query_fails exec (arduinoCliPath w @ '' lib outdated --format json'') \<longrightarrow>
      getOutdatedLibraries exec (arduinoCliPath w) = Inr Map.empty) \<and>
   (query_fails exec (arduinoCliPath w @ '' lib outdated --format json'') \<and>
    getInstalledLibraries exec (arduinoCliPath w) = Inr inst \<and>
    getAvailableLibrariesStreaming exec (arduinoCliPath w) = Inr avail \<longrightarrow>
      fst (fetchLibraries exec w) = Inr (map (library_entry inst Map.empty) avail) \<and>
      list_all (\<lambda>lib. opt_prop lib ''hasUpdate'' = JBool False \<and>
                       opt_prop lib ''latestVersion'' = JUndefined)
        (map (library_entry inst Map.empty) avail) \<and>
      notifications (snd (fetchLibraries exec w))
        = notifications w @ [Information ''Fetching libraries from arduino-cli...'']) \<and>
   (query_fails exec (arduinoCliPath w @ '' lib list --format json'') \<or>
    query_fails exec (arduinoCliPath w @ '' lib search --format json'') \<longrightarrow>
      (\<exists>e. getInstalledLibraries exec (arduinoCliPath w) = Inl e \<or>
            getAvailableLibrariesStreaming exec (arduinoCliPath w) = Inl e) \<and>
      (\<exists>e. ErrorMessage (''Error fetching libraries: '' @ error_toString e)
               \<in> set (notifications (snd (fetchLibraries exec w)))) \<and>
      fst (fetchLibraries exec w)
        = Inr (case fst (loadFromCache w) of Some cached \<Rightarrow> cached | None \<Rightarrow> []))"
proof -
  let ?cli = "arduinoCliPath w"
  have a: "\<exists>m. getOutdatedLibraries exec ?cli = Inr m"
    by (rule getOutdatedLibraries_resolves)
  have b: "getOutdatedLibraries exec ?cli = Inr Map.empty"
    if "query_fails exec (?cli @ '' lib outdated --format json'')"
    using that by (rule getOutdatedLibraries_failed)
  have c: "fst (fetchLibraries exec w) = Inr (map (library_entry inst Map.empty) avail) \<and>
      list_all (\<lambda>lib. opt_prop lib ''hasUpdate'' = JBool False \<and>
                       opt_prop lib ''latestVersion'' = JUndefined)
        (map (library_entry inst Map.empty) avail) \<and>
      notifications (snd (fetchLibraries exec w))
        = notifications w @ [Information ''Fetching libraries from arduino-cli...'']"
    if "query_fails exec (?cli @ '' lib outdated --format json'')"
      "getInstalledLibraries exec ?cli = Inr inst"
      "getAvailableLibrariesStreaming exec ?cli = Inr avail"
  proof -
    from that(1) have o: "getOutdatedLibraries exec ?cli = Inr Map.empty" by (rule b)
    have 1: "fst (fetchLibraries exec w) = Inr (map (library_entry inst Map.empty) avail)"
      using that(2) o that(3) by (rule fetchLibraries_join)
    have 2: "list_all (\<lambda>lib. opt_prop lib ''hasUpdate'' = JBool False \<and>
                       opt_prop lib ''latestVersion'' = JUndefined)
        (map (library_entry inst Map.empty) avail)"
      by (simp add: list_all_iff library_entry_no_update)
    have 3: "notifications (snd (fetchLibraries exec w))
        = notifications w @ [Information ''Fetching libraries from arduino-cli...'']"
      using that(2) o that(3)
      by (simp add: fetchLibraries_def fetch_join_def Let_def showInformationMessage_def
          saveToCache_def)
    from 1 2 3 show ?thesis by blast
  qed
  have d: "(\<exists>e. getInstalledLibraries exec ?cli = Inl e \<or>
            getAvailableLibrariesStreaming exec ?cli = Inl e) \<and>
      (\<exists>e. ErrorMessage (''Error fetching libraries: '' @ error_toString e)
               \<in> set (notifications (snd (fetchLibraries exec w)))) \<and>
      fst (fetchLibraries exec w)
        = Inr (case fst (loadFromCache w) of Some cached \<Rightarrow> cached | None \<Rightarrow> [])"
    if "query_fails exec (?cli @ '' lib list --format json'') \<or>
        query_fails exec (?cli @ '' lib search --format json'')"
  proof -
    from that have r: "\<exists>e. getInstalledLibraries exec ?cli = Inl e \<or>
            getAvailableLibrariesStreaming exec ?cli = Inl e"
      using getInstalledLibraries_failed getAvailableLibrariesStreaming_failed by blast
    with a have "\<exists>e'. fetch_join exec ?cli = Inl e'"
      by (auto simp add: fetch_join_def split: sum.splits)
    then obtain e' where "fetch_join exec ?cli = Inl e'" by blast
    from fetchLibraries_fallback [OF this] r show ?thesis by blast
  qed
  from a b c d show ?thesis by blast
qed

theorem C10_outdated_failure_is_absorbed_witness:
  "query_fails exec_no_outdated ''arduino-cli lib outdated --format json'' \<and>
   map (\<lambda>lib. (opt_prop lib ''name'', opt_prop lib ''installed'', opt_prop lib ''hasUpdate'',
                opt_prop lib ''latestVersion''))
       (projr (fst (fetchLibraries exec_no_outdated world0)))
     = [(JStr ''Servo'', JBool True, JBool False, JUndefined),
        (JStr ''WiFi'', JBool False, JBool False, JUndefined)] \<and>
   notifications (snd (fetchLibraries exec_no_outdated world0))
     = [Information ''Fetching libraries from arduino-cli...''] \<and>
   query_fails exec_unavailable ''arduino-cli lib list --format json'' \<and>
   fst (fetchLibraries exec_unavailable world_week_old)
     = Inr [JObj [(''name'', JStr ''Servo''), (''installed'', JBool True),
                  (''hasUpdate'', JBool False)]]"
  using C10_outdated_failure_is_absorbed [where exec = exec_no_outdated and w = world0
          and inst = "[JStr ''Servo'' \<mapsto> JStr ''1.1.0'']"
          and avail = "[JObj [(''name'', JStr ''Servo''), (''version'', JStr ''1.2.0'')],
                        JObj [(''name'', JStr ''WiFi''), (''version'', JUndefined)]]"]
        C10_outdated_failure_is_absorbed [where exec = exec_unavailable and w = world_week_old]
  by (simp add: world0_def world_week_old_def libs_file_def query_fails_def
      exec_no_outdated_def exec_libs_def exec_unavailable_def
      getInstalledLibraries_def getAvailableLibrariesStreaming_def get_prop_def js_or_def
      map_set_def map_has_def map_get_def library_entry_def loadFromCache_def cached_list_def
      cacheExpiration_def)

end
